theory Spec2Isabelle
  imports Main "HOL-Library.Word"
begin

section \<open>The IR handler bridge of melonDS-android\<close>

text \<open>
  \<^verbatim>\<open>MelonDSAndroidIRHandler\<close> forwards the emulator core's infrared transport calls to a
  host-managed \<^verbatim>\<open>IRManager\<close> object through JNI. The class holds two handles and has one
  forwarding member function per operation. Everything a member function does is either a
  test of the two handles, a call of a JNI function, a log line, or a return; the model
  follows the source statement by statement and records every JNI call and every log line
  in a trace.
\<close>

subsection \<open>Data\<close>

type_synonym jbyte = "8 word"
type_synonym jboolean = "8 word"
type_synonym jint = "32 word"

text \<open>A C++ pointer or a \<^verbatim>\<open>jobject\<close> is an address; \<^verbatim>\<open>nullptr\<close> is address 0.\<close>

type_synonym pointer = nat

definition nullptr :: pointer where
  "nullptr = 0"

definition JNI_FALSE :: jboolean where
  "JNI_FALSE = 0"

definition JNI_TRUE :: jboolean where
  "JNI_TRUE = 1"

text \<open>The private fields of the class (MelonDSAndroidIRHandler.h, lines 10 and 11).\<close>

record handler =
  jniEnvHandler :: pointer
  irManager :: pointer

text \<open>
  A \<^verbatim>\<open>jmethodID\<close> stands for the method it was resolved from: its name and its JNI
  signature. A member function holds at most two JNI local references at a time: the class
  reference returned by \<^verbatim>\<open>GetObjectClass\<close> and the byte array returned by
  \<^verbatim>\<open>NewByteArray\<close>.
\<close>

type_synonym jmethodID = "string \<times> string"

datatype lref = ClassRef | ArrayRef

text \<open>
  What a member function does to the world outside the object, in the order it does it.
  The events of the JNI functions that can return null carry whether they succeeded.
\<close>

datatype event =
    LogE string
  | LogD string "jboolean list"
  | GetEnv bool
  | NewArr jint bool
  | SetRegion jint jint
  | GetClass bool
  | GetMethod string string bool
  | CallBoolean jmethodID
  | CallVoid jmethodID
  | CallInt jmethodID "jbyte list" jint
  | GetRegion jint jint
  | DeleteRef lref

text \<open>
  The Java exceptions that the JNI functions called here raise. A JNI function does not
  unwind the native caller: the exception stays pending in the thread's environment until
  native code clears it or control returns to Java. The class never calls
  \<^verbatim>\<open>ExceptionCheck\<close>, \<^verbatim>\<open>ExceptionOccurred\<close> or \<^verbatim>\<open>ExceptionClear\<close>.
\<close>

datatype jthrowable = NoSuchMethodError | ArrayIndexOutOfBoundsException | OutOfMemoryError

text \<open>
  The state a member function works on: the object itself, the trace so far, the
  caller's memory that the \<^verbatim>\<open>char* buffer\<close> argument of the read operations points
  to, addressed by byte offset from that pointer, and the exception pending in the JNI
  environment, if any.
\<close>

record state =
  this :: handler
  trace :: "event list"
  buffer :: "nat \<Rightarrow> jbyte"
  pending :: "jthrowable option"

text \<open>
  The answers, during one call of a member function, of everything that is not in this
  class: whether \<^verbatim>\<open>JniEnvHandler::getCurrentThreadEnv\<close> yields an environment, whether
  the Java runtime allocates a byte array of a given length, whether it finds the class of
  the \<^verbatim>\<open>IRManager\<close> object and a method of a given name and signature, and what the
  host object's methods return and store into the array they are given.
\<close>

record runtime =
  env_available :: bool
  array_allocated :: "jint \<Rightarrow> bool"
  class_found :: bool
  method_found :: "string \<Rightarrow> string \<Rightarrow> bool"
  host_boolean :: "jmethodID \<Rightarrow> bool"
  host_int :: "jmethodID \<Rightarrow> jbyte list \<Rightarrow> jint \<Rightarrow> jint"
  host_byte :: "jmethodID \<Rightarrow> nat \<Rightarrow> jbyte"

subsection \<open>Logging and the JNI functions the class calls\<close>

definition emit :: "event \<Rightarrow> state \<Rightarrow> state" where
  "emit e s = s\<lparr>trace := trace s @ [e]\<rparr>"

definition LOGE :: "string \<Rightarrow> state \<Rightarrow> state" where
  "LOGE msg s = emit (LogE msg) s"

definition LOGD :: "string \<Rightarrow> jboolean list \<Rightarrow> state \<Rightarrow> state" where
  "LOGD fmt args s = emit (LogD fmt args) s"

definition Throw :: "jthrowable \<Rightarrow> state \<Rightarrow> state" where
  "Throw x s = s\<lparr>pending := Some x\<rparr>"

definition getCurrentThreadEnv :: "runtime \<Rightarrow> state \<Rightarrow> bool \<times> state" where
  "getCurrentThreadEnv rt s = (env_available rt, emit (GetEnv (env_available rt)) s)"

text \<open>
  A new Java byte array is filled with zeros; a null result is \<open>None\<close>, and comes
  with a pending \<^verbatim>\<open>OutOfMemoryError\<close>.
\<close>

definition NewByteArray :: "runtime \<Rightarrow> jint \<Rightarrow> state \<Rightarrow> jbyte list option \<times> state" where
  "NewByteArray rt len s =
     (if array_allocated rt len
      then (Some (replicate (nat (sint len)) 0), emit (NewArr len True) s)
      else (None, Throw OutOfMemoryError (emit (NewArr len False) s)))"

text \<open>
  The region functions of JNI copy between a Java array and native memory. A region that
  is not inside the array raises \<^verbatim>\<open>ArrayIndexOutOfBoundsException\<close>, which stays
  pending, and copies nothing.
\<close>

definition region_valid :: "jbyte list \<Rightarrow> jint \<Rightarrow> jint \<Rightarrow> bool" where
  "region_valid a start len \<longleftrightarrow>
     0 \<le> sint start \<and> 0 \<le> sint len \<and> sint start + sint len \<le> int (length a)"

definition SetByteArrayRegion ::
  "jbyte list \<Rightarrow> jint \<Rightarrow> jint \<Rightarrow> (nat \<Rightarrow> jbyte) \<Rightarrow> state \<Rightarrow> jbyte list \<times> state" where
  "SetByteArrayRegion a start len buf s =
     (if region_valid a start len
      then (take (nat (sint start)) a @ map buf [0 ..< nat (sint len)]
            @ drop (nat (sint start) + nat (sint len)) a,
            emit (SetRegion start len) s)
      else (a, Throw ArrayIndexOutOfBoundsException (emit (SetRegion start len) s)))"

definition GetByteArrayRegion :: "jbyte list \<Rightarrow> jint \<Rightarrow> jint \<Rightarrow> state \<Rightarrow> state" where
  "GetByteArrayRegion a start len s =
     emit (GetRegion start len)
       (if region_valid a start len
        then s\<lparr>buffer := (\<lambda>i. if i < nat (sint len) then a ! (nat (sint start) + i)
                                else buffer s i)\<rparr>
        else Throw ArrayIndexOutOfBoundsException s)"

definition GetObjectClass :: "runtime \<Rightarrow> state \<Rightarrow> bool \<times> state" where
  "GetObjectClass rt s = (class_found rt, emit (GetClass (class_found rt)) s)"

text \<open>
  A method that is not found gives a null \<^verbatim>\<open>jmethodID\<close> and a pending
  \<^verbatim>\<open>NoSuchMethodError\<close>.
\<close>

definition GetMethodID ::
  "runtime \<Rightarrow> string \<Rightarrow> string \<Rightarrow> state \<Rightarrow> jmethodID option \<times> state" where
  "GetMethodID rt name sig s =
     (if method_found rt name sig
      then (Some (name, sig), emit (GetMethod name sig True) s)
      else (None, Throw NoSuchMethodError (emit (GetMethod name sig False) s)))"

definition CallBooleanMethod :: "runtime \<Rightarrow> jmethodID \<Rightarrow> state \<Rightarrow> jboolean \<times> state" where
  "CallBooleanMethod rt m s =
     (if host_boolean rt m then JNI_TRUE else JNI_FALSE, emit (CallBoolean m) s)"

definition CallVoidMethod :: "jmethodID \<Rightarrow> state \<Rightarrow> state" where
  "CallVoidMethod m s = emit (CallVoid m) s"

text \<open>
  An \<^verbatim>\<open>int\<close> method of the host object gets the byte array and a length; it returns an
  \<^verbatim>\<open>int\<close> and may have stored bytes into the array, whose length stays what it was.
\<close>

definition CallIntMethod ::
  "runtime \<Rightarrow> jmethodID \<Rightarrow> jbyte list \<Rightarrow> jint \<Rightarrow> state \<Rightarrow> (jint \<times> jbyte list) \<times> state" where
  "CallIntMethod rt m a len s =
     ((host_int rt m a len, map (host_byte rt m) [0 ..< length a]), emit (CallInt m a len) s)"

definition DeleteLocalRef :: "lref \<Rightarrow> state \<Rightarrow> state" where
  "DeleteLocalRef r s = emit (DeleteRef r) s"

subsection \<open>The constructor (MelonDSAndroidIRHandler.cpp, lines 8 to 17)\<close>

text \<open>
  The member initialisers store both arguments before the body runs; the body only logs.
  The result is the new object and the log line.
\<close>

definition MelonDSAndroidIRHandler :: "pointer \<Rightarrow> pointer \<Rightarrow> handler \<times> event list" where
  "MelonDSAndroidIRHandler jniEnvHandler' irManager' =
     (let this' = \<lparr>jniEnvHandler = jniEnvHandler', irManager = irManager'\<rparr> in
      if jniEnvHandler' = nullptr \<or> irManager' = nullptr
      then (this', [LogE ''IRHandler created with null jniEnvHandler or irManager''])
      else (this', [LogD ''IRHandler created successfully'' []]))"

subsection \<open>The member functions\<close>

definition openSerial :: "runtime \<Rightarrow> state \<Rightarrow> bool \<times> state" where
  "openSerial rt s =
     (if jniEnvHandler (this s) = nullptr \<or> irManager (this s) = nullptr then
        (False, LOGE ''openSerial: Handler not initialized'' s)
      else
        let (env, s) = getCurrentThreadEnv rt s in
        if \<not> env then (False, LOGE ''openSerial: Failed to get JNI environment'' s)
        else
          let (irManagerClass, s) = GetObjectClass rt s in
          if \<not> irManagerClass then
            (False, LOGE ''openSerial: Failed to get IRManager class'' s)
          else
            let (openMethod, s) = GetMethodID rt ''openSerial'' ''()Z'' s in
            case openMethod of
              None \<Rightarrow>
                (False, DeleteLocalRef ClassRef
                          (LOGE ''openSerial: Failed to get openSerial method'' s))
            | Some m \<Rightarrow>
                let (result, s) = CallBooleanMethod rt m s;
                    s = DeleteLocalRef ClassRef s;
                    s = LOGD ''openSerial() = %d'' [result] s
                in (result \<noteq> 0, s))"

definition closeSerial :: "runtime \<Rightarrow> state \<Rightarrow> unit \<times> state" where
  "closeSerial rt s =
     (if jniEnvHandler (this s) = nullptr \<or> irManager (this s) = nullptr then ((), s)
      else
        let (env, s) = getCurrentThreadEnv rt s in
        if \<not> env then ((), s)
        else
          let (irManagerClass, s) = GetObjectClass rt s in
          if \<not> irManagerClass then ((), s)
          else
            let (closeMethod, s) = GetMethodID rt ''closeSerial'' ''()V'' s in
            case closeMethod of
              None \<Rightarrow> ((), DeleteLocalRef ClassRef s)
            | Some m \<Rightarrow>
                let s = CallVoidMethod m s;
                    s = DeleteLocalRef ClassRef s;
                    s = LOGD ''closeSerial() called'' [] s
                in ((), s))"

definition writeSerial :: "runtime \<Rightarrow> (nat \<Rightarrow> jbyte) \<Rightarrow> jint \<Rightarrow> state \<Rightarrow> jint \<times> state" where
  "writeSerial rt data len s =
     (if jniEnvHandler (this s) = nullptr \<or> irManager (this s) = nullptr then (- 1, s)
      else
        let (env, s) = getCurrentThreadEnv rt s in
        if \<not> env then (- 1, s)
        else
          let (javaData, s) = NewByteArray rt len s in
          case javaData of
            None \<Rightarrow> (- 1, LOGE ''Failed to allocate byte array'' s)
          | Some a \<Rightarrow>
              let (a, s) = SetByteArrayRegion a 0 len data s;
                  (irManagerClass, s) = GetObjectClass rt s in
              if \<not> irManagerClass then (- 1, DeleteLocalRef ArrayRef s)
              else
                let (writeMethod, s) = GetMethodID rt ''writeSerial'' ''([BI)I'' s in
                case writeMethod of
                  None \<Rightarrow> (- 1, DeleteLocalRef ArrayRef (DeleteLocalRef ClassRef s))
                | Some m \<Rightarrow>
                    let ((result, a), s) = CallIntMethod rt m a len s;
                        s = DeleteLocalRef ClassRef s;
                        s = DeleteLocalRef ArrayRef s
                    in (result, s))"

definition readSerial :: "runtime \<Rightarrow> jint \<Rightarrow> state \<Rightarrow> jint \<times> state" where
  "readSerial rt maxLength s =
     (if jniEnvHandler (this s) = nullptr \<or> irManager (this s) = nullptr then (0, s)
      else
        let (env, s) = getCurrentThreadEnv rt s in
        if \<not> env then (0, s)
        else
          let (javaBuffer, s) = NewByteArray rt maxLength s in
          case javaBuffer of
            None \<Rightarrow> (0, LOGE ''Failed to allocate byte array'' s)
          | Some a \<Rightarrow>
              let (irManagerClass, s) = GetObjectClass rt s in
              if \<not> irManagerClass then (0, DeleteLocalRef ArrayRef s)
              else
                let (readMethod, s) = GetMethodID rt ''readSerial'' ''([BI)I'' s in
                case readMethod of
                  None \<Rightarrow> (0, DeleteLocalRef ArrayRef (DeleteLocalRef ClassRef s))
                | Some m \<Rightarrow>
                    let ((bytesRead, a), s) = CallIntMethod rt m a maxLength s;
                        s = (if 0 < sint bytesRead then GetByteArrayRegion a 0 bytesRead s else s);
                        s = DeleteLocalRef ClassRef s;
                        s = DeleteLocalRef ArrayRef s
                    in (bytesRead, s))"

definition isSerialOpen :: "runtime \<Rightarrow> state \<Rightarrow> bool \<times> state" where
  "isSerialOpen rt s =
     (if jniEnvHandler (this s) = nullptr \<or> irManager (this s) = nullptr then (False, s)
      else
        let (env, s) = getCurrentThreadEnv rt s in
        if \<not> env then (False, s)
        else
          let (irManagerClass, s) = GetObjectClass rt s in
          if \<not> irManagerClass then (False, s)
          else
            let (isOpenMethod, s) = GetMethodID rt ''isSerialOpen'' ''()Z'' s in
            case isOpenMethod of
              None \<Rightarrow> (False, DeleteLocalRef ClassRef s)
            | Some m \<Rightarrow>
                let (result, s) = CallBooleanMethod rt m s;
                    s = DeleteLocalRef ClassRef s
                in (result \<noteq> 0, s))"

definition openTCP :: "runtime \<Rightarrow> state \<Rightarrow> bool \<times> state" where
  "openTCP rt s =
     (if jniEnvHandler (this s) = nullptr \<or> irManager (this s) = nullptr then
        (False, LOGE ''openTCP: Handler not initialized'' s)
      else
        let (env, s) = getCurrentThreadEnv rt s in
        if \<not> env then (False, LOGE ''openTCP: Failed to get JNI environment'' s)
        else
          let (irManagerClass, s) = GetObjectClass rt s in
          if \<not> irManagerClass then
            (False, LOGE ''openTCP: Failed to get IRManager class'' s)
          else
            let (openMethod, s) = GetMethodID rt ''openTCP'' ''()Z'' s in
            case openMethod of
              None \<Rightarrow>
                (False, DeleteLocalRef ClassRef
                          (LOGE ''openTCP: Failed to get openTCP method'' s))
            | Some m \<Rightarrow>
                let (result, s) = CallBooleanMethod rt m s;
                    s = DeleteLocalRef ClassRef s;
                    s = LOGD ''openTCP() = %d'' [result] s
                in (result \<noteq> 0, s))"

definition closeTCP :: "runtime \<Rightarrow> state \<Rightarrow> unit \<times> state" where
  "closeTCP rt s =
     (if jniEnvHandler (this s) = nullptr \<or> irManager (this s) = nullptr then ((), s)
      else
        let (env, s) = getCurrentThreadEnv rt s in
        if \<not> env then ((), s)
        else
          let (irManagerClass, s) = GetObjectClass rt s in
          if \<not> irManagerClass then ((), s)
          else
            let (closeMethod, s) = GetMethodID rt ''closeTCP'' ''()V'' s in
            case closeMethod of
              None \<Rightarrow> ((), DeleteLocalRef ClassRef s)
            | Some m \<Rightarrow>
                let s = CallVoidMethod m s;
                    s = DeleteLocalRef ClassRef s;
                    s = LOGD ''closeTCP() called'' [] s
                in ((), s))"

definition writeTCP :: "runtime \<Rightarrow> (nat \<Rightarrow> jbyte) \<Rightarrow> jint \<Rightarrow> state \<Rightarrow> jint \<times> state" where
  "writeTCP rt data len s =
     (if jniEnvHandler (this s) = nullptr \<or> irManager (this s) = nullptr then (- 1, s)
      else
        let (env, s) = getCurrentThreadEnv rt s in
        if \<not> env then (- 1, s)
        else
          let (javaData, s) = NewByteArray rt len s in
          case javaData of
            None \<Rightarrow> (- 1, LOGE ''Failed to allocate byte array'' s)
          | Some a \<Rightarrow>
              let (a, s) = SetByteArrayRegion a 0 len data s;
                  (irManagerClass, s) = GetObjectClass rt s in
              if \<not> irManagerClass then (- 1, DeleteLocalRef ArrayRef s)
              else
                let (writeMethod, s) = GetMethodID rt ''writeTCP'' ''([BI)I'' s in
                case writeMethod of
                  None \<Rightarrow> (- 1, DeleteLocalRef ArrayRef (DeleteLocalRef ClassRef s))
                | Some m \<Rightarrow>
                    let ((result, a), s) = CallIntMethod rt m a len s;
                        s = DeleteLocalRef ClassRef s;
                        s = DeleteLocalRef ArrayRef s
                    in (result, s))"

definition readTCP :: "runtime \<Rightarrow> jint \<Rightarrow> state \<Rightarrow> jint \<times> state" where
  "readTCP rt maxLength s =
     (if jniEnvHandler (this s) = nullptr \<or> irManager (this s) = nullptr then (0, s)
      else
        let (env, s) = getCurrentThreadEnv rt s in
        if \<not> env then (0, s)
        else
          let (javaBuffer, s) = NewByteArray rt maxLength s in
          case javaBuffer of
            None \<Rightarrow> (0, LOGE ''Failed to allocate byte array'' s)
          | Some a \<Rightarrow>
              let (irManagerClass, s) = GetObjectClass rt s in
              if \<not> irManagerClass then (0, DeleteLocalRef ArrayRef s)
              else
                let (readMethod, s) = GetMethodID rt ''readTCP'' ''([BI)I'' s in
                case readMethod of
                  None \<Rightarrow> (0, DeleteLocalRef ArrayRef (DeleteLocalRef ClassRef s))
                | Some m \<Rightarrow>
                    let ((bytesRead, a), s) = CallIntMethod rt m a maxLength s;
                        s = (if 0 < sint bytesRead then GetByteArrayRegion a 0 bytesRead s else s);
                        s = DeleteLocalRef ClassRef s;
                        s = DeleteLocalRef ArrayRef s
                    in (bytesRead, s))"

definition isTCPOpen :: "runtime \<Rightarrow> state \<Rightarrow> bool \<times> state" where
  "isTCPOpen rt s =
     (if jniEnvHandler (this s) = nullptr \<or> irManager (this s) = nullptr then (False, s)
      else
        let (env, s) = getCurrentThreadEnv rt s in
        if \<not> env then (False, s)
        else
          let (irManagerClass, s) = GetObjectClass rt s in
          if \<not> irManagerClass then (False, s)
          else
            let (isOpenMethod, s) = GetMethodID rt ''isTCPOpen'' ''()Z'' s in
            case isOpenMethod of
              None \<Rightarrow> (False, DeleteLocalRef ClassRef s)
            | Some m \<Rightarrow>
                let (result, s) = CallBooleanMethod rt m s;
                    s = DeleteLocalRef ClassRef s
                in (result \<noteq> 0, s))"

definition hasDataAvailable :: "runtime \<Rightarrow> state \<Rightarrow> bool \<times> state" where
  "hasDataAvailable rt s =
     (if jniEnvHandler (this s) = nullptr \<or> irManager (this s) = nullptr then (False, s)
      else
        let (env, s) = getCurrentThreadEnv rt s in
        if \<not> env then (False, s)
        else
          let (irManagerClass, s) = GetObjectClass rt s in
          if \<not> irManagerClass then (False, s)
          else
            let (hasDataMethod, s) = GetMethodID rt ''hasDataAvailable'' ''()Z'' s in
            case hasDataMethod of
              None \<Rightarrow> (False, DeleteLocalRef ClassRef s)
            | Some m \<Rightarrow>
                let (result, s) = CallBooleanMethod rt m s;
                    s = DeleteLocalRef ClassRef s
                in (result \<noteq> 0, s))"

subsection \<open>Calling a member function\<close>

text \<open>
  The eleven operations of the interface with their arguments. The \<^verbatim>\<open>const char* data\<close>
  of a write is the memory it points to, by byte offset; the \<^verbatim>\<open>char* buffer\<close> of a
  read is the \<open>buffer\<close> of the state.
\<close>

datatype operation =
    OpenSerial
  | CloseSerial
  | WriteSerial "nat \<Rightarrow> jbyte" jint
  | ReadSerial jint
  | IsSerialOpen
  | OpenTCP
  | CloseTCP
  | WriteTCP "nat \<Rightarrow> jbyte" jint
  | ReadTCP jint
  | IsTCPOpen
  | HasDataAvailable

datatype result = RBool bool | RVoid | RInt jint

fun invoke :: "runtime \<Rightarrow> operation \<Rightarrow> state \<Rightarrow> result \<times> state" where
  "invoke rt OpenSerial s = (let (r, s) = openSerial rt s in (RBool r, s))"
| "invoke rt CloseSerial s = (let (r, s) = closeSerial rt s in (RVoid, s))"
| "invoke rt (WriteSerial data len) s = (let (r, s) = writeSerial rt data len s in (RInt r, s))"
| "invoke rt (ReadSerial maxLength) s = (let (r, s) = readSerial rt maxLength s in (RInt r, s))"
| "invoke rt IsSerialOpen s = (let (r, s) = isSerialOpen rt s in (RBool r, s))"
| "invoke rt OpenTCP s = (let (r, s) = openTCP rt s in (RBool r, s))"
| "invoke rt CloseTCP s = (let (r, s) = closeTCP rt s in (RVoid, s))"
| "invoke rt (WriteTCP data len) s = (let (r, s) = writeTCP rt data len s in (RInt r, s))"
| "invoke rt (ReadTCP maxLength) s = (let (r, s) = readTCP rt maxLength s in (RInt r, s))"
| "invoke rt IsTCPOpen s = (let (r, s) = isTCPOpen rt s in (RBool r, s))"
| "invoke rt HasDataAvailable s = (let (r, s) = hasDataAvailable rt s in (RBool r, s))"

text \<open>The events one call adds to the trace.\<close>

definition events :: "runtime \<Rightarrow> operation \<Rightarrow> state \<Rightarrow> event list" where
  "events rt op s = drop (length (trace s)) (trace (snd (invoke rt op s)))"

text \<open>
  A handler's lifetime: calls one after the other on the same object, each with the
  answers the runtime gives during that call.
\<close>

fun lifetime :: "(runtime \<times> operation) list \<Rightarrow> state \<Rightarrow> result list \<times> state" where
  "lifetime [] s = ([], s)"
| "lifetime ((rt, op) # calls) s =
     (let (r, s) = invoke rt op s; (rs, s) = lifetime calls s in (r # rs, s))"

subsection \<open>Vocabulary of the specification\<close>

text \<open>The host object's method that an operation forwards to, by name and JNI signature.\<close>

fun method_of :: "operation \<Rightarrow> jmethodID" where
  "method_of OpenSerial = (''openSerial'', ''()Z'')"
| "method_of CloseSerial = (''closeSerial'', ''()V'')"
| "method_of (WriteSerial data len) = (''writeSerial'', ''([BI)I'')"
| "method_of (ReadSerial maxLength) = (''readSerial'', ''([BI)I'')"
| "method_of IsSerialOpen = (''isSerialOpen'', ''()Z'')"
| "method_of OpenTCP = (''openTCP'', ''()Z'')"
| "method_of CloseTCP = (''closeTCP'', ''()V'')"
| "method_of (WriteTCP data len) = (''writeTCP'', ''([BI)I'')"
| "method_of (ReadTCP maxLength) = (''readTCP'', ''([BI)I'')"
| "method_of IsTCPOpen = (''isTCPOpen'', ''()Z'')"
| "method_of HasDataAvailable = (''hasDataAvailable'', ''()Z'')"

text \<open>The length of the transfer byte array an operation asks for, if it asks for one.\<close>

fun transfer_length :: "operation \<Rightarrow> jint option" where
  "transfer_length (WriteSerial data len) = Some len"
| "transfer_length (ReadSerial maxLength) = Some maxLength"
| "transfer_length (WriteTCP data len) = Some len"
| "transfer_length (ReadTCP maxLength) = Some maxLength"
| "transfer_length OpenSerial = None"
| "transfer_length CloseSerial = None"
| "transfer_length IsSerialOpen = None"
| "transfer_length OpenTCP = None"
| "transfer_length CloseTCP = None"
| "transfer_length IsTCPOpen = None"
| "transfer_length HasDataAvailable = None"

text \<open>
  Every resolution step of an operation succeeds: both handles are non-null, the JNI
  environment is obtained, the transfer array (where the operation has one) is allocated,
  and the class and the method are resolved.
\<close>

definition handles_null :: "handler \<Rightarrow> bool" where
  "handles_null h \<longleftrightarrow> jniEnvHandler h = nullptr \<or> irManager h = nullptr"

definition resolves :: "runtime \<Rightarrow> handler \<Rightarrow> operation \<Rightarrow> bool" where
  "resolves rt h op \<longleftrightarrow>
     \<not> handles_null h \<and> env_available rt
     \<and> (case transfer_length op of None \<Rightarrow> True | Some len \<Rightarrow> array_allocated rt len)
     \<and> class_found rt
     \<and> method_found rt (fst (method_of op)) (snd (method_of op))"

text \<open>The failure sentinel of each operation.\<close>

fun sentinel :: "operation \<Rightarrow> result" where
  "sentinel OpenSerial = RBool False"
| "sentinel CloseSerial = RVoid"
| "sentinel (WriteSerial data len) = RInt (- 1)"
| "sentinel (ReadSerial maxLength) = RInt 0"
| "sentinel IsSerialOpen = RBool False"
| "sentinel OpenTCP = RBool False"
| "sentinel CloseTCP = RVoid"
| "sentinel (WriteTCP data len) = RInt (- 1)"
| "sentinel (ReadTCP maxLength) = RInt 0"
| "sentinel IsTCPOpen = RBool False"
| "sentinel HasDataAvailable = RBool False"

text \<open>
  What the host object's method returns when the operation reaches it: a write hands it
  the first \<open>len\<close> bytes of the caller's data, a read a zero-filled array of
  \<open>maxLength\<close> bytes.
\<close>

fun host_result :: "runtime \<Rightarrow> operation \<Rightarrow> result" where
  "host_result rt (WriteSerial data len) =
     RInt (host_int rt (''writeSerial'', ''([BI)I'') (map data [0 ..< nat (sint len)]) len)"
| "host_result rt (WriteTCP data len) =
     RInt (host_int rt (''writeTCP'', ''([BI)I'') (map data [0 ..< nat (sint len)]) len)"
| "host_result rt (ReadSerial maxLength) =
     RInt (host_int rt (''readSerial'', ''([BI)I'') (replicate (nat (sint maxLength)) 0) maxLength)"
| "host_result rt (ReadTCP maxLength) =
     RInt (host_int rt (''readTCP'', ''([BI)I'') (replicate (nat (sint maxLength)) 0) maxLength)"
| "host_result rt CloseSerial = RVoid"
| "host_result rt CloseTCP = RVoid"
| "host_result rt OpenSerial = RBool (host_boolean rt (''openSerial'', ''()Z''))"
| "host_result rt IsSerialOpen = RBool (host_boolean rt (''isSerialOpen'', ''()Z''))"
| "host_result rt OpenTCP = RBool (host_boolean rt (''openTCP'', ''()Z''))"
| "host_result rt IsTCPOpen = RBool (host_boolean rt (''isTCPOpen'', ''()Z''))"
| "host_result rt HasDataAvailable = RBool (host_boolean rt (''hasDataAvailable'', ''()Z''))"

text \<open>Classes of events: calls of a method of the host object, log lines, and the JNI
  functions that create, fill or read a byte array.\<close>

fun is_host_call :: "event \<Rightarrow> bool" where
  "is_host_call (CallBoolean m) = True"
| "is_host_call (CallVoid m) = True"
| "is_host_call (CallInt m a len) = True"
| "is_host_call e = False"

fun is_log :: "event \<Rightarrow> bool" where
  "is_log (LogE msg) = True"
| "is_log (LogD fmt args) = True"
| "is_log e = False"

fun is_byte_transfer :: "event \<Rightarrow> bool" where
  "is_byte_transfer (NewArr len ok) = True"
| "is_byte_transfer (SetRegion start len) = True"
| "is_byte_transfer (GetRegion start len) = True"
| "is_byte_transfer (CallInt m a len) = True"
| "is_byte_transfer e = False"

text \<open>
  The one call of the host object that an operation makes when it reaches it, with the
  arguments it passes: nothing for the seven operations without data, the array holding
  the caller's bytes and the length for a write, the zero-filled array and the maximal
  length for a read.
\<close>

fun host_call :: "operation \<Rightarrow> event" where
  "host_call OpenSerial = CallBoolean (''openSerial'', ''()Z'')"
| "host_call CloseSerial = CallVoid (''closeSerial'', ''()V'')"
| "host_call (WriteSerial data len) =
     CallInt (''writeSerial'', ''([BI)I'') (map data [0 ..< nat (sint len)]) len"
| "host_call (ReadSerial maxLength) =
     CallInt (''readSerial'', ''([BI)I'') (replicate (nat (sint maxLength)) 0) maxLength"
| "host_call IsSerialOpen = CallBoolean (''isSerialOpen'', ''()Z'')"
| "host_call OpenTCP = CallBoolean (''openTCP'', ''()Z'')"
| "host_call CloseTCP = CallVoid (''closeTCP'', ''()V'')"
| "host_call (WriteTCP data len) =
     CallInt (''writeTCP'', ''([BI)I'') (map data [0 ..< nat (sint len)]) len"
| "host_call (ReadTCP maxLength) =
     CallInt (''readTCP'', ''([BI)I'') (replicate (nat (sint maxLength)) 0) maxLength"
| "host_call IsTCPOpen = CallBoolean (''isTCPOpen'', ''()Z'')"
| "host_call HasDataAvailable = CallBoolean (''hasDataAvailable'', ''()Z'')"

text \<open>
  A trace releases every local reference exactly once: walking through it with the set
  of live references, a successful \<^verbatim>\<open>GetObjectClass\<close> or \<^verbatim>\<open>NewByteArray\<close> makes
  its reference live, \<^verbatim>\<open>DeleteLocalRef\<close> is only applied to a live reference and ends
  its life, a reference is only used while it is live, and none is live at the end.
\<close>

fun released_once :: "lref list \<Rightarrow> event list \<Rightarrow> bool" where
  "released_once live [] = (live = [])"
| "released_once live (GetClass True # es) =
     (ClassRef \<notin> set live \<and> released_once (ClassRef # live) es)"
| "released_once live (NewArr len True # es) =
     (ArrayRef \<notin> set live \<and> released_once (ArrayRef # live) es)"
| "released_once live (DeleteRef r # es) =
     (r \<in> set live \<and> released_once (removeAll r live) es)"
| "released_once live (GetMethod name sig ok # es) =
     (ClassRef \<in> set live \<and> released_once live es)"
| "released_once live (SetRegion start len # es) =
     (ArrayRef \<in> set live \<and> released_once live es)"
| "released_once live (GetRegion start len # es) =
     (ArrayRef \<in> set live \<and> released_once live es)"
| "released_once live (CallInt m a len # es) =
     (ArrayRef \<in> set live \<and> released_once live es)"
| "released_once live (e # es) = released_once live es"

text \<open>How often a reference is deleted in a trace.\<close>

definition deletions :: "lref \<Rightarrow> event list \<Rightarrow> nat" where
  "deletions r es = length (filter (\<lambda>e. e = DeleteRef r) es)"

text \<open>Which reference an event allocates, and how often a trace allocates it.\<close>

fun allocates :: "lref \<Rightarrow> event \<Rightarrow> bool" where
  "allocates ClassRef (GetClass ok) = ok"
| "allocates ArrayRef (NewArr len ok) = ok"
| "allocates r e = False"

definition allocations :: "lref \<Rightarrow> event list \<Rightarrow> nat" where
  "allocations r es = length (filter (allocates r) es)"

text \<open>
  The byte-buffer traffic of an operation whose resolution steps all succeed: a write
  allocates the transfer array, copies the caller's data in and hands the array to the
  host; a read allocates the array, hands it to the host and copies out of it when the
  host's count is positive; the other operations have none.
\<close>

fun byte_transfers :: "runtime \<Rightarrow> operation \<Rightarrow> event list" where
  "byte_transfers rt (WriteSerial data len) =
     [NewArr len True, SetRegion 0 len,
      CallInt (''writeSerial'', ''([BI)I'') (map data [0 ..< nat (sint len)]) len]"
| "byte_transfers rt (WriteTCP data len) =
     [NewArr len True, SetRegion 0 len,
      CallInt (''writeTCP'', ''([BI)I'') (map data [0 ..< nat (sint len)]) len]"
| "byte_transfers rt (ReadSerial maxLength) =
     [NewArr maxLength True,
      CallInt (''readSerial'', ''([BI)I'') (replicate (nat (sint maxLength)) 0) maxLength]
     @ (case host_result rt (ReadSerial maxLength) of
          RInt bytesRead \<Rightarrow> if 0 < sint bytesRead then [GetRegion 0 bytesRead] else []
        | RBool b \<Rightarrow> []
        | RVoid \<Rightarrow> [])"
| "byte_transfers rt (ReadTCP maxLength) =
     [NewArr maxLength True,
      CallInt (''readTCP'', ''([BI)I'') (replicate (nat (sint maxLength)) 0) maxLength]
     @ (case host_result rt (ReadTCP maxLength) of
          RInt bytesRead \<Rightarrow> if 0 < sint bytesRead then [GetRegion 0 bytesRead] else []
        | RBool b \<Rightarrow> []
        | RVoid \<Rightarrow> [])"
| "byte_transfers rt op = []"

subsection \<open>Concrete runtimes and states\<close>

text \<open>
  A runtime in which every step succeeds for non-negative array lengths; the host's
  boolean methods answer true, its \<^verbatim>\<open>int\<close> methods answer 2, and it stores
  \<open>i + 1\<close> at index \<open>i\<close> of the array it is given.
\<close>

definition ready :: runtime where
  "ready = \<lparr>env_available = True, array_allocated = (\<lambda>len. 0 \<le> sint len),
            class_found = True, method_found = (\<lambda>name sig. True),
            host_boolean = (\<lambda>m. True), host_int = (\<lambda>m a len. 2),
            host_byte = (\<lambda>m i. of_nat i + 1)\<rparr>"

text \<open>The same runtime, except that it has no method \<^verbatim>\<open>closeTCP\<close> and cannot
  allocate arrays.\<close>

definition broken :: runtime where
  "broken = ready\<lparr>array_allocated := (\<lambda>len. False),
                  method_found := (\<lambda>name sig. name \<noteq> ''closeTCP'')\<rparr>"

text \<open>A handler constructed with two non-null handles, one constructed with a null
  \<^verbatim>\<open>jniEnvHandler\<close>; the caller's buffer holds 255 everywhere and no exception
  is pending.\<close>

definition attached :: state where
  "attached = \<lparr>this = fst (MelonDSAndroidIRHandler 1 2), trace = [], buffer = (\<lambda>i. 255),
                pending = None\<rparr>"

definition detached :: state where
  "detached = \<lparr>this = fst (MelonDSAndroidIRHandler 0 2), trace = [], buffer = (\<lambda>i. 255),
                pending = None\<rparr>"

definition payload :: "nat \<Rightarrow> jbyte" where
  "payload i = of_nat i + 65"

subsection \<open>Unfolding the model\<close>

lemma copy_in:
  "fst (SetByteArrayRegion (replicate (nat (sint len)) 0) 0 len data s)
   = map data [0 ..< nat (sint len)]"
  by (cases "0 \<le> sint len") (simp_all add: SetByteArrayRegion_def region_valid_def)

lemma trace_SetByteArrayRegion:
  "trace (snd (SetByteArrayRegion a start len data s)) = trace s @ [SetRegion start len]"
  by (simp add: SetByteArrayRegion_def emit_def Throw_def)

lemma this_SetByteArrayRegion:
  "this (snd (SetByteArrayRegion a start len data s)) = this s"
  by (simp add: SetByteArrayRegion_def emit_def Throw_def)

lemma buffer_SetByteArrayRegion:
  "buffer (snd (SetByteArrayRegion a start len data s)) = buffer s"
  by (simp add: SetByteArrayRegion_def emit_def Throw_def)

lemmas call_defs =
  emit_def Throw_def LOGE_def LOGD_def getCurrentThreadEnv_def NewByteArray_def
  GetByteArrayRegion_def GetObjectClass_def GetMethodID_def CallBooleanMethod_def
  CallVoidMethod_def CallIntMethod_def DeleteLocalRef_def JNI_TRUE_def JNI_FALSE_def
  copy_in trace_SetByteArrayRegion this_SetByteArrayRegion buffer_SetByteArrayRegion
  case_prod_beta Let_def

lemmas member_defs =
  openSerial_def closeSerial_def writeSerial_def readSerial_def isSerialOpen_def
  openTCP_def closeTCP_def writeTCP_def readTCP_def isTCPOpen_def hasDataAvailable_def

lemmas fixture_defs =
  ready_def broken_def attached_def detached_def payload_def MelonDSAndroidIRHandler_def
  nullptr_def handles_null_def resolves_def events_def

subsection \<open>Facts about one call\<close>

text \<open>A call only appends to the trace, and never assigns to a field of the object.\<close>

lemma trace_invoke: "trace (snd (invoke rt op s)) = trace s @ events rt op s"
  unfolding events_def
  by (cases "env_available rt"; cases "class_found rt";
      cases "method_found rt (fst (method_of op)) (snd (method_of op))";
      cases "case transfer_length op of None \<Rightarrow> True | Some len \<Rightarrow> array_allocated rt len";
      cases "handles_null (this s)"; cases op)
     (simp_all add: handles_null_def member_defs call_defs)

lemma this_invoke: "this (snd (invoke rt op s)) = this s"
  by (cases "env_available rt"; cases "class_found rt";
      cases "method_found rt (fst (method_of op)) (snd (method_of op))";
      cases "case transfer_length op of None \<Rightarrow> True | Some len \<Rightarrow> array_allocated rt len";
      cases "handles_null (this s)"; cases op)
     (simp_all add: handles_null_def member_defs call_defs)

lemma invoke_failure:
  "\<not> resolves rt (this s) op \<Longrightarrow>
     fst (invoke rt op s) = sentinel op \<and> filter is_host_call (events rt op s) = []"
  unfolding events_def
  by (cases "env_available rt"; cases "class_found rt";
      cases "method_found rt (fst (method_of op)) (snd (method_of op))";
      cases "case transfer_length op of None \<Rightarrow> True | Some len \<Rightarrow> array_allocated rt len";
      cases "handles_null (this s)"; cases op)
     (simp_all add: resolves_def handles_null_def member_defs call_defs)

lemma invoke_null:
  "handles_null (this s) \<Longrightarrow>
     filter (\<lambda>e. \<not> is_log e) (events rt op s) = [] \<and> buffer (snd (invoke rt op s)) = buffer s"
  unfolding events_def
  by (cases op) (simp_all add: handles_null_def member_defs call_defs)

lemma invoke_released: "released_once [] (events rt op s)"
  unfolding events_def
  by (cases "env_available rt"; cases "class_found rt";
      cases "method_found rt (fst (method_of op)) (snd (method_of op))";
      cases "case transfer_length op of None \<Rightarrow> True | Some len \<Rightarrow> array_allocated rt len";
      cases "handles_null (this s)"; cases op)
     (simp_all add: handles_null_def member_defs call_defs)

lemma invoke_deletions: "deletions r (events rt op s) = allocations r (events rt op s)"
  unfolding events_def deletions_def allocations_def
  by (cases "env_available rt"; cases "class_found rt";
      cases "method_found rt (fst (method_of op)) (snd (method_of op))";
      cases "case transfer_length op of None \<Rightarrow> True | Some len \<Rightarrow> array_allocated rt len";
      cases "handles_null (this s)"; cases op; cases r)
     (simp_all add: handles_null_def member_defs call_defs)

lemma no_transfer:
  "transfer_length op = None \<Longrightarrow> filter is_byte_transfer (events rt op s) = []"
  unfolding events_def
  by (cases "env_available rt"; cases "class_found rt";
      cases "method_found rt (fst (method_of op)) (snd (method_of op))";
      cases "handles_null (this s)"; cases op)
     (simp_all add: handles_null_def member_defs call_defs)

lemma transfer:
  "resolves rt (this s) op \<Longrightarrow> filter is_byte_transfer (events rt op s) = byte_transfers rt op"
  unfolding events_def
  by (cases op) (simp_all add: resolves_def handles_null_def member_defs call_defs)

lemma no_transfer_buffer:
  "transfer_length op = None \<Longrightarrow> buffer (snd (invoke rt op s)) = buffer s"
  by (cases "env_available rt"; cases "class_found rt";
      cases "method_found rt (fst (method_of op)) (snd (method_of op))";
      cases "handles_null (this s)"; cases op)
     (simp_all add: handles_null_def member_defs call_defs)

lemma host_call_once:
  "resolves rt (this s) op \<Longrightarrow> filter is_host_call (events rt op s) = [host_call op]"
  unfolding events_def
  by (cases op) (simp_all add: resolves_def handles_null_def member_defs call_defs)

lemma close_pending:
  "op = CloseSerial \<or> op = CloseTCP \<Longrightarrow> \<not> resolves rt (this s) op \<Longrightarrow>
     pending (snd (invoke rt op s))
     = (if handles_null (this s) \<or> \<not> env_available rt \<or> \<not> class_found rt then pending s
        else Some NoSuchMethodError)"
  by (cases "env_available rt"; cases "class_found rt";
      cases "method_found rt (fst (method_of op)) (snd (method_of op))";
      cases "handles_null (this s)"; cases op)
     (simp_all add: resolves_def handles_null_def member_defs call_defs)

lemma close_silent:
  "op = CloseSerial \<or> op = CloseTCP \<Longrightarrow> \<not> resolves rt (this s) op \<Longrightarrow>
     filter is_log (events rt op s) = [] \<and> buffer (snd (invoke rt op s)) = buffer s"
  unfolding events_def
  by (cases "env_available rt"; cases "class_found rt";
      cases "method_found rt (fst (method_of op)) (snd (method_of op))";
      cases "handles_null (this s)"; cases op)
     (simp_all add: resolves_def handles_null_def member_defs call_defs)

lemma read_frame:
  "op = ReadSerial n \<or> op = ReadTCP n \<Longrightarrow>
   \<not> resolves rt (this s) op \<or> host_result rt op = RInt r \<and> sint r \<le> 0 \<Longrightarrow>
     buffer (snd (invoke rt op s)) = buffer s"
  by (cases "env_available rt"; cases "class_found rt";
      cases "method_found rt (fst (method_of op)) (snd (method_of op))";
      cases "array_allocated rt n";
      cases "handles_null (this s)"; cases op)
     (auto simp add: resolves_def handles_null_def member_defs call_defs)

lemma read_copy:
  "op = ReadSerial n \<or> op = ReadTCP n \<Longrightarrow> resolves rt (this s) op \<Longrightarrow>
   host_result rt op = RInt r \<Longrightarrow> 0 < sint r \<Longrightarrow> sint r \<le> sint n \<Longrightarrow>
     buffer (snd (invoke rt op s))
     = (\<lambda>i. if i < nat (sint r) then host_byte rt (method_of op) i else buffer s i)"
  by (auto simp add: resolves_def handles_null_def member_defs call_defs region_valid_def)

subsection \<open>Facts about a lifetime\<close>

lemma this_lifetime: "this (snd (lifetime calls s)) = this s"
proof (induction calls arbitrary: s)
  case Nil
  show ?case by simp
next
  case (Cons c calls)
  obtain rt op where c: "c = (rt, op)" by (cases c)
  have "this (snd (lifetime calls (snd (invoke rt op s)))) = this s"
    using Cons.IH [of "snd (invoke rt op s)"] this_invoke [of rt op s] by simp
  then show ?case by (simp add: c case_prod_beta)
qed

lemma trace_lifetime: "\<exists>es. trace (snd (lifetime calls s)) = trace s @ es"
proof (induction calls arbitrary: s)
  case Nil
  show ?case by simp
next
  case (Cons c calls)
  obtain rt op where c: "c = (rt, op)" by (cases c)
  obtain es where "trace (snd (lifetime calls (snd (invoke rt op s))))
                   = trace (snd (invoke rt op s)) @ es"
    using Cons.IH [of "snd (invoke rt op s)"] by blast
  then have "trace (snd (lifetime (c # calls) s)) = trace s @ (events rt op s @ es)"
    by (simp add: c case_prod_beta trace_invoke)
  then show ?case by blast
qed

lemma null_lifetime:
  "handles_null (this s) \<Longrightarrow>
     fst (lifetime calls s) = map (\<lambda>c. sentinel (snd c)) calls
     \<and> filter (\<lambda>e. \<not> is_log e) (drop (length (trace s)) (trace (snd (lifetime calls s)))) = []"
proof (induction calls arbitrary: s)
  case Nil
  show ?case by simp
next
  case (Cons c calls)
  obtain rt op where c: "c = (rt, op)" by (cases c)
  let ?s1 = "snd (invoke rt op s)"
  have not_res: "\<not> resolves rt (this s) op"
    using Cons.prems by (simp add: resolves_def)
  have r1: "fst (invoke rt op s) = sentinel op"
    using invoke_failure [OF not_res] by simp
  have e1: "filter (\<lambda>e. \<not> is_log e) (events rt op s) = []"
    using invoke_null [OF Cons.prems] by simp
  have null1: "handles_null (this ?s1)"
    using Cons.prems by (simp add: this_invoke)
  have ih: "fst (lifetime calls ?s1) = map (\<lambda>c. sentinel (snd c)) calls"
    "filter (\<lambda>e. \<not> is_log e) (drop (length (trace ?s1)) (trace (snd (lifetime calls ?s1)))) = []"
    using Cons.IH [OF null1] by simp_all
  obtain es where es: "trace (snd (lifetime calls ?s1)) = trace ?s1 @ es"
    using trace_lifetime by blast
  have t: "trace (snd (lifetime (c # calls) s)) = trace s @ events rt op s @ es"
    by (simp add: c case_prod_beta es trace_invoke)
  have "filter (\<lambda>e. \<not> is_log e) es = []"
    using ih(2) by (simp add: es)
  then have "filter (\<lambda>e. \<not> is_log e)
               (drop (length (trace s)) (trace (snd (lifetime (c # calls) s)))) = []"
    by (simp add: t e1)
  moreover have "fst (lifetime (c # calls) s) = map (\<lambda>c. sentinel (snd c)) (c # calls)"
    by (simp add: c case_prod_beta r1 ih(1))
  ultimately show ?case by simp
qed

section \<open>The claims of the specification\<close>

text \<open>
  C1. For every operation, when every resolution step succeeds (non-null handles, the JNI
  environment obtained, the transfer array allocated where there is one, the class and the
  method resolved), the operation returns exactly the value the host object's corresponding
  method returns: the host's boolean for openSerial, openTCP, isSerialOpen, isTCPOpen and
  hasDataAvailable, the host's int for writeSerial and writeTCP, and the host's bytesRead
  count for readSerial and readTCP.
\<close>

theorem forwards_host_value:
  "resolves rt (this s) op \<Longrightarrow> fst (invoke rt op s) = host_result rt op"
  by (cases op) (simp_all add: resolves_def handles_null_def member_defs call_defs)

theorem forwards_host_value_witness:
  "resolves ready (this attached) (WriteSerial payload 3)
   \<and> fst (invoke ready (WriteSerial payload 3) attached) = RInt 2
   \<and> resolves ready (this attached) IsSerialOpen
   \<and> fst (invoke ready IsSerialOpen attached) = RBool True"
proof -
  have w: "resolves ready (this attached) (WriteSerial payload 3)"
    by (simp add: fixture_defs)
  have i: "resolves ready (this attached) IsSerialOpen"
    by (simp add: fixture_defs)
  show ?thesis
    using w i forwards_host_value [OF w] forwards_host_value [OF i]
    by (simp add: ready_def)
qed

text \<open>
  C2. For every operation, if jniEnvHandler or irManager is null, the operation returns its
  failure sentinel at once (false, -1, 0, or a plain return): no method of the host object
  is invoked, and indeed no JNI function is called at all, the only events being log lines.
\<close>

theorem null_handles_return_sentinel:
  "handles_null (this s) \<Longrightarrow>
     fst (invoke rt op s) = sentinel op
     \<and> filter is_host_call (events rt op s) = []
     \<and> filter (\<lambda>e. \<not> is_log e) (events rt op s) = []"
proof -
  assume null: "handles_null (this s)"
  then have "\<not> resolves rt (this s) op"
    by (simp add: resolves_def)
  then show ?thesis
    using invoke_failure [of rt s op] invoke_null [OF null, of rt op] by simp
qed

theorem null_handles_return_sentinel_witness:
  "handles_null (this detached)
   \<and> fst (invoke ready (WriteTCP payload 3) detached) = RInt (- 1)
   \<and> events ready (WriteTCP payload 3) detached = []
   \<and> fst (invoke ready OpenSerial detached) = RBool False
   \<and> events ready OpenSerial detached = [LogE ''openSerial: Handler not initialized'']"
proof -
  have null: "handles_null (this detached)"
    by (simp add: fixture_defs)
  have "events ready (WriteTCP payload 3) detached = []"
    by (simp add: fixture_defs member_defs call_defs)
  moreover have "events ready OpenSerial detached
                 = [LogE ''openSerial: Handler not initialized'']"
    by (simp add: fixture_defs member_defs call_defs)
  ultimately show ?thesis
    using null null_handles_return_sentinel [OF null, of ready "WriteTCP payload 3"]
      null_handles_return_sentinel [OF null, of ready OpenSerial]
    by simp
qed

text \<open>
  C3. writeSerial and writeTCP return -1 on any resolution failure (null handles, no JNI
  environment, no transfer byte array, no IRManager class, no target method), and the host
  write method is not invoked in any of those cases.
\<close>

theorem write_failure_returns_minus_one:
  "op = WriteSerial data len \<or> op = WriteTCP data len \<Longrightarrow> \<not> resolves rt (this s) op \<Longrightarrow>
     fst (invoke rt op s) = RInt (- 1) \<and> filter is_host_call (events rt op s) = []"
  using invoke_failure [of rt s op] by auto

theorem write_failure_returns_minus_one_witness:
  "\<not> resolves broken (this attached) (WriteTCP payload 3)
   \<and> fst (invoke broken (WriteTCP payload 3) attached) = RInt (- 1)
   \<and> filter is_host_call (events broken (WriteTCP payload 3) attached) = []"
proof -
  have f: "\<not> resolves broken (this attached) (WriteTCP payload 3)"
    by (simp add: fixture_defs)
  show ?thesis
    using f write_failure_returns_minus_one [OF _ f, of payload 3] by simp
qed

text \<open>
  C4. readSerial and readTCP return 0 on any resolution failure (null handles, no JNI
  environment, no transfer byte array, no IRManager class, no target method), and the host
  read method is not invoked in any of those cases.
\<close>

theorem read_failure_returns_zero:
  "op = ReadSerial maxLength \<or> op = ReadTCP maxLength \<Longrightarrow> \<not> resolves rt (this s) op \<Longrightarrow>
     fst (invoke rt op s) = RInt 0 \<and> filter is_host_call (events rt op s) = []"
  using invoke_failure [of rt s op] by auto

theorem read_failure_returns_zero_witness:
  "\<not> resolves (ready\<lparr>class_found := False\<rparr>) (this attached) (ReadSerial 4)
   \<and> fst (invoke (ready\<lparr>class_found := False\<rparr>) (ReadSerial 4) attached) = RInt 0
   \<and> filter is_host_call (events (ready\<lparr>class_found := False\<rparr>) (ReadSerial 4) attached) = []"
proof -
  have f: "\<not> resolves (ready\<lparr>class_found := False\<rparr>) (this attached) (ReadSerial 4)"
    by (simp add: fixture_defs)
  show ?thesis
    using f read_failure_returns_zero [OF _ f, of 4] by simp
qed

text \<open>
  C5. openSerial, openTCP, isSerialOpen, isTCPOpen and hasDataAvailable return false on any
  resolution failure: null handles, no JNI environment, no IRManager class, no target
  method.
\<close>

theorem boolean_failure_returns_false:
  "op \<in> {OpenSerial, OpenTCP, IsSerialOpen, IsTCPOpen, HasDataAvailable} \<Longrightarrow>
   \<not> resolves rt (this s) op \<Longrightarrow> fst (invoke rt op s) = RBool False"
  using invoke_failure [of rt s op] by auto

theorem boolean_failure_returns_false_witness:
  "IsTCPOpen \<in> {OpenSerial, OpenTCP, IsSerialOpen, IsTCPOpen, HasDataAvailable}
   \<and> \<not> resolves (ready\<lparr>env_available := False\<rparr>) (this attached) IsTCPOpen
   \<and> fst (invoke (ready\<lparr>env_available := False\<rparr>) IsTCPOpen attached) = RBool False"
proof -
  have f: "\<not> resolves (ready\<lparr>env_available := False\<rparr>) (this attached) IsTCPOpen"
    by (simp add: fixture_defs)
  have m: "IsTCPOpen \<in> {OpenSerial, OpenTCP, IsSerialOpen, IsTCPOpen, HasDataAvailable}"
    by simp
  show ?thesis
    using f m boolean_failure_returns_false [OF m f] by simp
qed

text \<open>
  C6. For every operation and every exit path, each local reference made on that path (the
  class reference of GetObjectClass, the byte array of NewByteArray) is released exactly
  once by DeleteLocalRef before the operation returns: in the events of the call a
  reference is deleted only while it is live, none is live at the end, and each reference
  is deleted as often as it was successfully allocated.
\<close>

theorem local_references_released_once:
  "released_once [] (events rt op s)
   \<and> deletions r (events rt op s) = allocations r (events rt op s)"
  using invoke_released [of rt op s] invoke_deletions [of r rt op s] by simp

text \<open>
  C7, as stated: every one of the eleven operations accompanies its call of the host object
  with a byte-buffer transfer. It fails for openSerial: with every step succeeding, the
  host's openSerial is called and no byte array is created, filled, passed or read.
\<close>

theorem open_serial_moves_no_bytes:
  "filter is_host_call (events ready OpenSerial attached)
     = [CallBoolean (''openSerial'', ''()Z'')]
   \<and> filter is_byte_transfer (events ready OpenSerial attached) = []"
  by (simp add: fixture_defs member_defs call_defs)

text \<open>
  C7, amended. Only the four data operations marshal a byte buffer. When every resolution
  step succeeds, each of the eleven operations calls its host method exactly once. The
  seven operations without a data argument (openSerial, closeSerial, isSerialOpen, openTCP,
  closeTCP, isTCPOpen, hasDataAvailable) create, fill, pass and read no byte array and
  leave the caller's buffer as it was, on every path. When every resolution step
  succeeds, writeSerial and writeTCP allocate the transfer array, copy the caller's data
  in and pass the array holding those bytes to the host method; readSerial and readTCP
  allocate the transfer array, pass it to the host method and, when the host's count is
  positive, ask for that many bytes of the array from offset 0, which are copied into the
  caller's buffer when the count is also at most maxLength.
\<close>

theorem byte_buffers_only_for_data:
  "(transfer_length op = None \<longrightarrow>
      filter is_byte_transfer (events rt op s) = []
      \<and> buffer (snd (invoke rt op s)) = buffer s)
   \<and> (resolves rt (this s) op \<longrightarrow>
        filter is_host_call (events rt op s) = [host_call op]
        \<and> filter is_byte_transfer (events rt op s) = byte_transfers rt op
        \<and> ((op = ReadSerial maxLength \<or> op = ReadTCP maxLength)
             \<and> host_result rt op = RInt bytesRead
             \<and> 0 < sint bytesRead \<and> sint bytesRead \<le> sint maxLength \<longrightarrow>
             buffer (snd (invoke rt op s))
             = (\<lambda>i. if i < nat (sint bytesRead) then host_byte rt (method_of op) i
                     else buffer s i)))"
  using no_transfer [of op rt s] no_transfer_buffer [of op rt s] host_call_once [of rt s op]
    transfer [of rt s op] read_copy [of op maxLength rt s bytesRead]
  by blast

theorem byte_buffers_only_for_data_witness:
  "transfer_length CloseSerial = None
   \<and> resolves ready (this attached) CloseSerial
   \<and> filter is_host_call (events ready CloseSerial attached)
       = [CallVoid (''closeSerial'', ''()V'')]
   \<and> filter is_byte_transfer (events ready CloseSerial attached) = []
   \<and> buffer (snd (invoke ready CloseSerial attached)) = buffer attached
   \<and> resolves ready (this attached) (WriteSerial payload 3)
   \<and> filter is_host_call (events ready (WriteSerial payload 3) attached)
       = [CallInt (''writeSerial'', ''([BI)I'') [65, 66, 67] 3]
   \<and> filter is_byte_transfer (events ready (WriteSerial payload 3) attached)
       = [NewArr 3 True, SetRegion 0 3, CallInt (''writeSerial'', ''([BI)I'') [65, 66, 67] 3]
   \<and> resolves ready (this attached) (ReadTCP 4)
   \<and> host_result ready (ReadTCP 4) = RInt 2
   \<and> 0 < sint (2 :: jint) \<and> sint (2 :: jint) \<le> sint (4 :: jint)
   \<and> filter is_host_call (events ready (ReadTCP 4) attached)
       = [CallInt (''readTCP'', ''([BI)I'') [0, 0, 0, 0] 4]
   \<and> filter is_byte_transfer (events ready (ReadTCP 4) attached)
       = [NewArr 4 True, CallInt (''readTCP'', ''([BI)I'') [0, 0, 0, 0] 4, GetRegion 0 2]
   \<and> buffer (snd (invoke ready (ReadTCP 4) attached)) 0 = 1
   \<and> buffer (snd (invoke ready (ReadTCP 4) attached)) 1 = 2
   \<and> buffer (snd (invoke ready (ReadTCP 4) attached)) 2 = 255"
proof -
  have c: "resolves ready (this attached) CloseSerial"
    by (simp add: fixture_defs)
  have w: "resolves ready (this attached) (WriteSerial payload 3)"
    by (simp add: fixture_defs)
  have r: "resolves ready (this attached) (ReadTCP 4)"
    by (simp add: fixture_defs)
  have h: "host_result ready (ReadTCP 4) = RInt 2"
    by (simp add: ready_def)
  have three: "[0 ..< 3] = [0, 1, 2]"
    by (simp add: upt_rec)
  have four: "replicate 4 (0 :: jbyte) = [0, 0, 0, 0]"
    by (simp add: numeral_eq_Suc)
  show ?thesis
    using c w r h byte_buffers_only_for_data [of CloseSerial ready attached]
      byte_buffers_only_for_data [of "WriteSerial payload 3" ready attached]
      byte_buffers_only_for_data [of "ReadTCP 4" ready attached 4 2]
    by (simp add: ready_def payload_def attached_def three four)
qed

text \<open>
  C8, as stated: whenever the host's read method returns a value greater than 0, exactly
  that many bytes are copied from the transfer array into the caller's buffer. It fails
  when the host returns more than the array holds: for maxLength 1 the array has one byte;
  the host answers 2 and stores 1 in the array; readSerial returns 2, asks for the region
  of 2 bytes, and the caller's buffer, 255 everywhere, is what it was.
\<close>

theorem read_beyond_transfer_array:
  "fst (invoke ready (ReadSerial 1) attached) = RInt 2
   \<and> filter is_byte_transfer (events ready (ReadSerial 1) attached)
       = [NewArr 1 True, CallInt (''readSerial'', ''([BI)I'') [0] 1, GetRegion 0 2]
   \<and> host_byte ready (''readSerial'', ''([BI)I'') 0 = 1
   \<and> buffer attached 0 = 255
   \<and> buffer (snd (invoke ready (ReadSerial 1) attached)) = buffer attached"
  by (simp add: fixture_defs member_defs call_defs region_valid_def)

text \<open>
  C8, amended. readSerial and readTCP write into the caller's buffer only when the value
  returned by the host read method is strictly greater than 0; when that value is also at
  most maxLength, the length of the transfer array, they copy exactly that many bytes from
  the transfer array into the buffer starting at offset 0 and leave the rest of the buffer
  as it was; when the host returns 0 or a negative value, or when any resolution step
  fails, the caller's buffer is left completely unchanged.
\<close>

theorem read_buffer_frame:
  "op = ReadSerial maxLength \<or> op = ReadTCP maxLength \<Longrightarrow>
   host_result rt op = RInt bytesRead \<Longrightarrow>
     (\<not> resolves rt (this s) op \<or> sint bytesRead \<le> 0 \<longrightarrow>
        buffer (snd (invoke rt op s)) = buffer s)
     \<and> (resolves rt (this s) op \<and> 0 < sint bytesRead \<and> sint bytesRead \<le> sint maxLength \<longrightarrow>
          buffer (snd (invoke rt op s))
          = (\<lambda>i. if i < nat (sint bytesRead) then host_byte rt (method_of op) i
                  else buffer s i))"
  using read_frame [of op maxLength rt s bytesRead] read_copy [of op maxLength rt s bytesRead]
  by blast

theorem read_buffer_frame_witness:
  "host_result ready (ReadSerial 4) = RInt 2
   \<and> resolves ready (this attached) (ReadSerial 4) \<and> 0 < sint (2 :: jint)
   \<and> sint (2 :: jint) \<le> sint (4 :: jint)
   \<and> buffer (snd (invoke ready (ReadSerial 4) attached)) 0 = 1
   \<and> buffer (snd (invoke ready (ReadSerial 4) attached)) 1 = 2
   \<and> buffer (snd (invoke ready (ReadSerial 4) attached)) 2 = 255
   \<and> host_result broken (ReadTCP 4) = RInt 2
   \<and> \<not> resolves broken (this attached) (ReadTCP 4)
   \<and> buffer (snd (invoke broken (ReadTCP 4) attached)) = buffer attached"
proof -
  have h: "host_result ready (ReadSerial 4) = RInt 2"
    by (simp add: ready_def)
  have r: "resolves ready (this attached) (ReadSerial 4)"
    by (simp add: fixture_defs)
  have hb: "host_result broken (ReadTCP 4) = RInt 2"
    by (simp add: ready_def broken_def)
  have f: "\<not> resolves broken (this attached) (ReadTCP 4)"
    by (simp add: fixture_defs)
  show ?thesis
    using h r hb f read_buffer_frame [OF _ h, of 4 attached]
      read_buffer_frame [OF _ hb, of 4 attached]
    by (simp add: ready_def attached_def)
qed

text \<open>
  C9, as stated: when the handles are null or any resolution step fails, closeSerial and
  closeTCP return without any error indication that the caller could observe. It fails
  on the path where the method is not resolved: with a runtime that has no method
  closeTCP and no exception pending before the call, closeTCP returns with the
  NoSuchMethodError of GetMethodID still pending in the JNI environment.
\<close>

theorem close_leaves_exception_pending:
  "\<not> resolves broken (this attached) CloseTCP
   \<and> pending attached = None
   \<and> events broken CloseTCP attached
       = [GetEnv True, GetClass True, GetMethod ''closeTCP'' ''()V'' False, DeleteRef ClassRef]
   \<and> pending (snd (invoke broken CloseTCP attached)) = Some NoSuchMethodError"
  by (simp add: fixture_defs member_defs call_defs)

text \<open>
  C9, amended. closeSerial and closeTCP return nothing, so no failure sentinel, whether or
  not they reach the host. When the handles are null or a resolution step fails
  (environment, class or method), they invoke no method of the host object, write no log
  line, and leave the object and the caller's memory as they were. When the handles are
  null or the environment or the class is not obtained, the pending exception of the JNI
  environment is also what it was before the call; when the method is not resolved, the
  NoSuchMethodError raised by GetMethodID is left pending, since the functions neither
  check nor clear exceptions.
\<close>

theorem close_fails_without_sentinel:
  "op = CloseSerial \<or> op = CloseTCP \<Longrightarrow>
     fst (invoke rt op s) = RVoid
     \<and> (\<not> resolves rt (this s) op \<longrightarrow>
          filter is_host_call (events rt op s) = []
          \<and> filter is_log (events rt op s) = []
          \<and> this (snd (invoke rt op s)) = this s
          \<and> buffer (snd (invoke rt op s)) = buffer s
          \<and> pending (snd (invoke rt op s))
              = (if handles_null (this s) \<or> \<not> env_available rt \<or> \<not> class_found rt
                 then pending s else Some NoSuchMethodError))"
proof -
  assume op: "op = CloseSerial \<or> op = CloseTCP"
  then have "fst (invoke rt op s) = RVoid"
    by (auto simp add: case_prod_beta)
  then show ?thesis
    using invoke_failure [of rt s op] close_silent [OF op, of rt s] this_invoke [of rt op s]
      close_pending [OF op, of rt s]
    by simp
qed

theorem close_fails_without_sentinel_witness:
  "\<not> resolves (ready\<lparr>class_found := False\<rparr>) (this attached) CloseSerial
   \<and> fst (invoke (ready\<lparr>class_found := False\<rparr>) CloseSerial attached) = RVoid
   \<and> events (ready\<lparr>class_found := False\<rparr>) CloseSerial attached
       = [GetEnv True, GetClass False]
   \<and> pending (snd (invoke (ready\<lparr>class_found := False\<rparr>) CloseSerial attached)) = None
   \<and> \<not> resolves broken (this attached) CloseTCP
   \<and> fst (invoke broken CloseTCP attached) = RVoid
   \<and> filter is_host_call (events broken CloseTCP attached) = []
   \<and> filter is_log (events broken CloseTCP attached) = []
   \<and> fst (invoke ready CloseTCP attached) = RVoid"
proof -
  have f: "\<not> resolves (ready\<lparr>class_found := False\<rparr>) (this attached) CloseSerial"
    by (simp add: fixture_defs)
  have g: "\<not> resolves broken (this attached) CloseTCP"
    by (simp add: fixture_defs)
  have e: "events (ready\<lparr>class_found := False\<rparr>) CloseSerial attached
           = [GetEnv True, GetClass False]"
    by (simp add: fixture_defs member_defs call_defs)
  show ?thesis
    using f g e
      close_fails_without_sentinel [of CloseSerial "ready\<lparr>class_found := False\<rparr>" attached]
      close_fails_without_sentinel [of CloseTCP broken attached]
      close_fails_without_sentinel [of CloseTCP ready attached]
    by (simp add: ready_def attached_def)
qed

text \<open>
  C10. Construction never fails: the constructor stores jniEnvHandler and irManager as they
  are given, null or not; no operation changes the two fields, in one call or over a whole
  lifetime; so for a handler constructed with a null handle every call of every operation
  returns its failure sentinel and calls no JNI function, for as long as the handler lives.
\<close>

theorem construction_and_lifetime:
  "fst (MelonDSAndroidIRHandler j m) = \<lparr>jniEnvHandler = j, irManager = m\<rparr>
   \<and> this (snd (invoke rt op s)) = this s
   \<and> this (snd (lifetime calls s)) = this s
   \<and> (this s = fst (MelonDSAndroidIRHandler j m) \<and> (j = nullptr \<or> m = nullptr) \<longrightarrow>
        fst (lifetime calls s) = map (\<lambda>c. sentinel (snd c)) calls
        \<and> filter (\<lambda>e. \<not> is_log e)
            (drop (length (trace s)) (trace (snd (lifetime calls s)))) = [])"
proof -
  have stored: "fst (MelonDSAndroidIRHandler j m) = \<lparr>jniEnvHandler = j, irManager = m\<rparr>"
    by (simp add: MelonDSAndroidIRHandler_def Let_def)
  have "handles_null (this s)"
    if "this s = fst (MelonDSAndroidIRHandler j m)" "j = nullptr \<or> m = nullptr"
    using that by (auto simp add: stored handles_null_def)
  then show ?thesis
    using stored this_invoke [of rt op s] this_lifetime [of calls s] null_lifetime [of s calls]
    by blast
qed

theorem construction_and_lifetime_witness:
  "this detached = fst (MelonDSAndroidIRHandler 0 2) \<and> ((0 :: pointer) = nullptr \<or> (2 :: pointer) = nullptr)
   \<and> fst (lifetime [(ready, OpenSerial), (ready, ReadSerial 4), (broken, CloseTCP),
                     (ready, WriteTCP payload 3)] detached)
       = [RBool False, RInt 0, RVoid, RInt (- 1)]
   \<and> filter (\<lambda>e. \<not> is_log e)
       (drop (length (trace detached))
          (trace (snd (lifetime [(ready, OpenSerial), (ready, ReadSerial 4), (broken, CloseTCP),
                                 (ready, WriteTCP payload 3)] detached)))) = []"
proof -
  have made: "this detached = fst (MelonDSAndroidIRHandler 0 2)"
    by (simp add: detached_def)
  have null: "(0 :: pointer) = nullptr \<or> (2 :: pointer) = nullptr"
    by (simp add: nullptr_def)
  show ?thesis
    using made null
      construction_and_lifetime [of 0 2 ready OpenSerial detached
        "[(ready, OpenSerial), (ready, ReadSerial 4), (broken, CloseTCP),
          (ready, WriteTCP payload 3)]"]
    by (simp del: lifetime.simps)
qed

end
